theory Spec2Isabelle
  imports Complex_Main
begin

section \<open>Python values shared by the dendrites\<close>

text \<open>
  A Python \<open>str\<close> is a sequence of Unicode code points and \<open>len\<close> counts code points,
  so a \<open>str\<close> is a list of code-point numbers. Python \<open>bytes\<close> is a list of
  8-bit characters. A timeout is a Python \<open>float\<close> that the code only passes on,
  never computes with; it is kept as a rational number.
\<close>

type_synonym py_str = "nat list"
type_synonym py_bytes = "char list"
type_synonym py_float = rat

text \<open>A string literal of the source, as code points.\<close>

definition str_lit :: "string \<Rightarrow> py_str" where
  "str_lit s = map of_char s"

text \<open>\<open>torch.Size\<close>: a tuple of dimensions.\<close>

type_synonym torch_Size = "nat list"

section \<open>Text-to-image call descriptor (\<open>_dendrite/text_to_image/dendrite.py\<close>)\<close>

text \<open>
  The state of an asyncio event loop, as far as \<open>loop.run_until_complete\<close> tests it:
  idle, already running (the caller is itself a coroutine or callback of the loop), or
  closed.
\<close>

datatype loop_state = Idle | Running | Closed

text \<open>
  \<open>bittensor.Dendrite\<close> (the base of \<open>TextToImageDendrite\<close>) is not part of the
  sources; the attributes this code reads from it are \<open>channel\<close> (in the descriptor)
  and \<open>loop\<close> (in \<open>forward\<close>).
\<close>

record text_to_image_dendrite =
  channel :: nat
  loop :: loop_state

text \<open>
  Exceptions. \<open>TimeoutError\<close> is \<open>asyncio.TimeoutError\<close>, raised by
  \<open>asyncio.wait_for\<close>. Every other exception comes from code that is not part of the
  sources (serializer, stub, constructors); they carry the names of the error taxonomy of
  section 7 of the spec, and \<open>PyException\<close> is any other exception. \<open>RuntimeError\<close>
  is Python's, raised by \<open>loop.run_until_complete\<close>.
\<close>

datatype exn =
    SerializationError
  | TransportError
  | TimeoutError
  | MalformedResponseError
  | RuntimeError
  | PyException string

text \<open>
  Modelled from the spec: the status a descriptor carries. The base class
  \<open>bittensor.DendriteCall\<close> with its own status fields is missing from the sources;
  these are the lifecycle states of section 4.2, the failed state holding the error that
  is attached to the descriptor.
\<close>

datatype call_state =
    Created | Serializing | Dispatched | AwaitingResponse
  | Completed | Failed exn | TimedOut

text \<open>
  \<open>TextToImageForwardCall\<close>: the class attributes \<open>name\<close>, \<open>is_forward\<close> and
  \<open>image\<close>, the fields \<open>dendrite\<close> and \<open>timeout\<close> set by the base constructor and
  \<open>text\<close> set by \<open>__init__\<close> (\<open>text_field\<close> here: \<open>text\<close> is reserved). The
  field \<open>state\<close> stands for the status kept by the base class; no method of this class
  reads or writes it.
\<close>

record text_to_image_forward_call =
  name :: string
  is_forward :: bool
  image :: py_bytes
  dendrite :: text_to_image_dendrite
  timeout :: py_float
  text_field :: py_str
  state :: call_state

definition TextToImageForwardCall ::
  "text_to_image_dendrite \<Rightarrow> py_str \<Rightarrow> py_float \<Rightarrow> text_to_image_forward_call" where
  "TextToImageForwardCall dendrite_arg text_arg timeout_arg =
     \<lparr> name = ''text_to_image_forward'',
       is_forward = True,
       image = [],
       dendrite = dendrite_arg,
       timeout = timeout_arg,
       text_field = text_arg,
       state = Created \<rparr>"

text \<open>The wire shapes \<open>ForwardTextToImageRequest\<close> and \<open>ForwardTextToImageResponse\<close>.\<close>

record forward_text_to_image_request =
  request_text :: py_str

record forward_text_to_image_response =
  response_image :: py_bytes

text \<open>The remote operation: the \<open>Forward\<close> method of a stub bound to a channel.\<close>

datatype rpc_callable = TextToImageStub_Forward nat

text \<open>
  Methods of the descriptor. Each returns its result together with the descriptor after
  the call, so that what a method writes to \<open>self\<close> is visible.
\<close>

definition get_callable ::
  "text_to_image_forward_call \<Rightarrow> rpc_callable \<times> text_to_image_forward_call" where
  "get_callable self = (TextToImageStub_Forward (channel (dendrite self)), self)"

definition get_request_proto ::
  "text_to_image_forward_call \<Rightarrow> forward_text_to_image_request \<times> text_to_image_forward_call" where
  "get_request_proto self = (\<lparr> request_text = text_field self \<rparr>, self)"

definition apply_response_proto ::
  "text_to_image_forward_call \<Rightarrow> forward_text_to_image_response \<Rightarrow> text_to_image_forward_call" where
  "apply_response_proto self response_proto = self\<lparr> image := response_image response_proto \<rparr>"

definition get_inputs_shape ::
  "text_to_image_forward_call \<Rightarrow> torch_Size \<times> text_to_image_forward_call" where
  "get_inputs_shape self = ([length (text_field self)], self)"

definition get_outputs_shape ::
  "text_to_image_forward_call \<Rightarrow> torch_Size \<times> text_to_image_forward_call" where
  "get_outputs_shape self = ([length (image self)], self)"

section \<open>Coroutines and futures\<close>

text \<open>
  A coroutine is represented by its terminal outcome: the exception it raises or the value
  it returns. \<open>await\<close> hands that outcome to the awaiting coroutine.
  \<open>loop.run_until_complete\<close> first checks the loop: on a closed loop and on a loop
  that is already running it raises \<open>RuntimeError\<close> and the coroutine is never run;
  on an idle loop it runs the coroutine to its end and hands its outcome to the caller.
\<close>

type_synonym 'a coroutine = "exn + 'a"


definition await :: "'a coroutine \<Rightarrow> exn + 'a" where
  "await c = c"

text \<open>
  The in-flight invocation returned by a gRPC stub, seen at the deadline: it has produced
  a response, it has failed, or it is still pending. \<open>asyncio.wait_for\<close> returns the
  response, re-raises the failure, or cancels a pending future and raises
  \<open>asyncio.TimeoutError\<close>. Clock time is not represented: the timeout argument names
  the deadline at which the future is looked at.
\<close>

datatype 'a future = Done 'a | Raised exn | Pending

fun wait_for :: "'a future \<Rightarrow> py_float \<Rightarrow> 'a coroutine" where
  "wait_for (Done r) timeout_arg = Inr r"
| "wait_for (Raised e) timeout_arg = Inl e"
| "wait_for Pending timeout_arg = Inl TimeoutError"

section \<open>Text-to-image dendrite (\<open>_dendrite/text_to_image/dendrite.py\<close>)\<close>





section \<open>Causal-LM dendrite (\<open>_synapse/text_causal_lm/dendrite.py\<close>)\<close>

text \<open>
  Tensors are only handed on by this code (to the serializer and back); a tensor is its
  shape and its flattened elements. Wallets, endpoints and receptors are objects of
  classes that are not part of the sources and are kept as opaque identities.
\<close>

datatype torch_Tensor = Tensor (tensor_shape: "nat list") (tensor_data: "int list")
datatype wallet_obj = Wallet nat
datatype endpoint_obj = Endpoint nat
datatype receptor_obj = Receptor nat
datatype serializer_type = MSGPACK | OtherSerializer nat

text \<open>
  The constructor's arguments are dynamically typed (\<open>Optional[wallet]\<close>,
  \<open>Union[Endpoint, torch.Tensor]\<close>) and are tested with \<open>is None\<close> and
  \<open>isinstance\<close>, so they are values of a tagged union.
\<close>

datatype pyval =
    PyNone
  | PyWallet wallet_obj
  | PyEndpoint endpoint_obj
  | PyTensor torch_Tensor

fun isinstance_Tensor :: "pyval \<Rightarrow> bool" where
  "isinstance_Tensor (PyTensor _) = True"
| "isinstance_Tensor _ = False"

fun isinstance_wallet :: "pyval \<Rightarrow> bool" where
  "isinstance_wallet (PyWallet _) = True"
| "isinstance_wallet _ = False"

fun isinstance_Endpoint :: "pyval \<Rightarrow> bool" where
  "isinstance_Endpoint (PyEndpoint _) = True"
| "isinstance_Endpoint _ = False"

record forward_text_causal_lm_request =
  serialized_text_inputs :: py_bytes
  request_text_inputs_serializer_type :: serializer_type
  request_hidden_states_serializer_type :: serializer_type

record forward_text_causal_lm_response =
  hidden_states :: py_bytes

type_synonym metadata = "(py_str \<times> py_str) list"

text \<open>
  What the code uses without defining it: the state of the loop that
  \<open>asyncio.get_event_loop()\<close> returns, and of the \<open>bittensor\<close> package the version
  constant, the constructors of wallet, endpoint and receptor, the serializer, the
  receptor's signing method and its gRPC stub. Every one of the calls may raise.
\<close>

record bittensor_env =
  event_loop :: loop_state
  version_as_int :: int
  wallet_new :: "exn + wallet_obj"
  endpoint_from_tensor :: "torch_Tensor \<Rightarrow> exn + endpoint_obj"
  receptor_new :: "pyval \<Rightarrow> pyval \<Rightarrow> exn + receptor_obj"
  serializer_serialize :: "serializer_type \<Rightarrow> torch_Tensor \<Rightarrow> exn + py_bytes"
  serializer_deserialize :: "serializer_type \<Rightarrow> py_bytes \<Rightarrow> exn + torch_Tensor"
  receptor_sign :: "receptor_obj \<Rightarrow> exn + py_str"
  stub_ForwardTextLastHiddenState ::
    "receptor_obj \<Rightarrow> forward_text_causal_lm_request \<Rightarrow> py_float \<Rightarrow> metadata
       \<Rightarrow> forward_text_causal_lm_response future"

record text_causal_lm_dendrite =
  wallet :: pyval
  endpoint :: pyval
  receptor :: receptor_obj
  text_inputs_serializer_type :: serializer_type
  hidden_states_serializer_type :: serializer_type

text \<open>
  \<open>__init__\<close>: a \<open>None\<close> wallet is replaced by \<open>bittensor.wallet()\<close>, a tensor
  endpoint by \<open>bittensor.endpoint.from_tensor(endpoint)\<close>; the receptor is built from
  the two stored values. An exception of a constructor it calls leaves no object.
\<close>

definition TextCausalLMDendrite_init ::
  "bittensor_env \<Rightarrow> pyval \<Rightarrow> pyval \<Rightarrow> serializer_type \<Rightarrow> serializer_type
     \<Rightarrow> exn + text_causal_lm_dendrite" where
  "TextCausalLMDendrite_init env endpoint_arg wallet_arg text_inputs_ser hidden_states_ser =
     (case (if wallet_arg = PyNone
            then (case wallet_new env of Inl e \<Rightarrow> Inl e | Inr w \<Rightarrow> Inr (PyWallet w))
            else Inr wallet_arg) of
        Inl e \<Rightarrow> Inl e
      | Inr wallet' \<Rightarrow>
         (case (if isinstance_Tensor endpoint_arg
                then (case endpoint_arg of
                        PyTensor t \<Rightarrow>
                          (case endpoint_from_tensor env t of
                             Inl e \<Rightarrow> Inl e
                           | Inr ep \<Rightarrow> Inr (PyEndpoint ep))
                      | _ \<Rightarrow> Inr endpoint_arg)
                else Inr endpoint_arg) of
            Inl e \<Rightarrow> Inl e
          | Inr endpoint' \<Rightarrow>
             (case receptor_new env endpoint' wallet' of
                Inl e \<Rightarrow> Inl e
              | Inr receptor' \<Rightarrow>
                  Inr \<lparr> wallet = wallet',
                        endpoint = endpoint',
                        receptor = receptor',
                        text_inputs_serializer_type = text_inputs_ser,
                        hidden_states_serializer_type = hidden_states_ser \<rparr>)))"

text \<open>Python's \<open>str\<close> of an integer: decimal digits, with a minus sign when negative.\<close>

fun nat_digits :: "nat \<Rightarrow> py_str" where
  "nat_digits n = (if n < 10 then [48 + n] else nat_digits (n div 10) @ [48 + n mod 10])"

definition py_str_of_int :: "int \<Rightarrow> py_str" where
  "py_str_of_int i = (if i < 0 then 45 # nat_digits (nat (- i)) else nat_digits (nat i))"

text \<open>
  \<open>async_forward\<close>, first half (up to the stub call): serialize the text inputs, build
  the request, evaluate the arguments of the stub call. The result is the argument
  triple the stub is invoked with.
\<close>

record stub_invocation =
  inv_request :: forward_text_causal_lm_request
  inv_timeout :: py_float
  inv_metadata :: metadata

definition forward_invocation ::
  "bittensor_env \<Rightarrow> text_causal_lm_dendrite \<Rightarrow> torch_Tensor \<Rightarrow> py_float
     \<Rightarrow> exn + stub_invocation" where
  "forward_invocation env self text_inputs timeout_arg =
     (case serializer_serialize env (text_inputs_serializer_type self) text_inputs of
        Inl e \<Rightarrow> Inl e
      | Inr serialized_text \<Rightarrow>
         (let request = \<lparr> serialized_text_inputs = serialized_text,
                           request_text_inputs_serializer_type = text_inputs_serializer_type self,
                           request_hidden_states_serializer_type = hidden_states_serializer_type self \<rparr>
          in case receptor_sign env (receptor self) of
               Inl e \<Rightarrow> Inl e
             | Inr signature \<Rightarrow>
                 Inr \<lparr> inv_request = request,
                       inv_timeout = timeout_arg,
                       inv_metadata =
                         [ (str_lit ''rpc-auth-header'', str_lit ''Bittensor''),
                           (str_lit ''bittensor-signature'', signature),
                           (str_lit ''bittensor-version'', py_str_of_int (version_as_int env)) ] \<rparr>))"

text \<open>
  \<open>async_forward\<close>, whole: invoke the stub, wait for the response under the timeout,
  deserialize the hidden states and return them. No exception is caught.
\<close>

definition TextCausalLMDendrite_async_forward ::
  "bittensor_env \<Rightarrow> text_causal_lm_dendrite \<Rightarrow> torch_Tensor \<Rightarrow> py_float
     \<Rightarrow> torch_Tensor coroutine" where
  "TextCausalLMDendrite_async_forward env self text_inputs timeout_arg =
     (case forward_invocation env self text_inputs timeout_arg of
        Inl e \<Rightarrow> Inl e
      | Inr invocation \<Rightarrow>
         (let asyncio_future =
                stub_ForwardTextLastHiddenState env (receptor self)
                  (inv_request invocation) (inv_timeout invocation) (inv_metadata invocation)
          in case await (wait_for asyncio_future timeout_arg) of
               Inl e \<Rightarrow> Inl e
             | Inr grpc_response \<Rightarrow>
                 serializer_deserialize env (hidden_states_serializer_type self)
                   (hidden_states grpc_response)))"


section \<open>Sequences of descriptor operations\<close>

text \<open>
  The five methods of \<open>TextToImageForwardCall\<close> as operations on a descriptor, and a
  sequence of them applied in order; only the descriptor after each call is kept.
\<close>

datatype descriptor_method =
    Call_get_callable
  | Call_get_request_proto
  | Call_apply_response_proto forward_text_to_image_response
  | Call_get_inputs_shape
  | Call_get_outputs_shape

fun invoke :: "descriptor_method \<Rightarrow> text_to_image_forward_call \<Rightarrow> text_to_image_forward_call" where
  "invoke Call_get_callable c = snd (get_callable c)"
| "invoke Call_get_request_proto c = snd (get_request_proto c)"
| "invoke (Call_apply_response_proto r) c = apply_response_proto c r"
| "invoke Call_get_inputs_shape c = snd (get_inputs_shape c)"
| "invoke Call_get_outputs_shape c = snd (get_outputs_shape c)"

fun invoke_all ::
  "descriptor_method list \<Rightarrow> text_to_image_forward_call \<Rightarrow> text_to_image_forward_call" where
  "invoke_all [] c = c"
| "invoke_all (m # ms) c = invoke_all ms (invoke m c)"

fun is_apply_response :: "descriptor_method \<Rightarrow> bool" where
  "is_apply_response (Call_apply_response_proto _) = True"
| "is_apply_response _ = False"

section \<open>The call lifecycle of the endpoint client\<close>

text \<open>
  Modelled from the spec: \<open>bittensor.Dendrite.apply\<close>, the driver that
  \<open>TextToImageDendrite\<close> inherits, is missing from the sources. This is the lifecycle
  of section 4.2 with the boundaries of section 6: the client encodes the request built
  by the descriptor (a failure ends in \<open>Failed\<close> with \<open>SerializationError\<close>), selects
  the operation, invokes the transport with the serialized request, the descriptor's
  timeout and the metadata, and waits. No response by the deadline ends in \<open>TimedOut\<close>,
  a transport failure in \<open>Failed\<close>; a response is decoded (a failure ends in
  \<open>Failed\<close> with \<open>MalformedResponseError\<close>) and absorbed with
  \<open>apply_response_proto\<close>, ending in \<open>Completed\<close>. The outcome is attached to the
  descriptor, which is returned in every case.
\<close>

datatype transport_outcome = Responds py_bytes | Rejects | NeverResponds

record endpoint_client =
  encode_request :: "forward_text_to_image_request \<Rightarrow> exn + py_bytes"
  decode_response :: "py_bytes \<Rightarrow> exn + forward_text_to_image_response"
  client_metadata :: "(py_str \<times> py_str) list"
  transport :: "rpc_callable \<Rightarrow> py_bytes \<Rightarrow> py_float \<Rightarrow> (py_str \<times> py_str) list \<Rightarrow> transport_outcome"

definition dendrite_apply_spec ::
  "endpoint_client \<Rightarrow> text_to_image_dendrite \<Rightarrow> text_to_image_forward_call
     \<Rightarrow> exn + text_to_image_forward_call" where
  "dendrite_apply_spec client self dendrite_call =
     (let (request, c2) = get_request_proto (dendrite_call\<lparr> state := Serializing \<rparr>) in
      case encode_request client request of
        Inl e \<Rightarrow> Inr (c2\<lparr> state := Failed SerializationError \<rparr>)
      | Inr wire_request \<Rightarrow>
         (let (operation, c3) = get_callable (c2\<lparr> state := Dispatched \<rparr>);
              c4 = c3\<lparr> state := AwaitingResponse \<rparr>
          in case transport client operation wire_request (timeout c4) (client_metadata client) of
               NeverResponds \<Rightarrow> Inr (c4\<lparr> state := TimedOut \<rparr>)
             | Rejects \<Rightarrow> Inr (c4\<lparr> state := Failed TransportError \<rparr>)
             | Responds wire_response \<Rightarrow>
                 (case decode_response client wire_response of
                    Inl e \<Rightarrow> Inr (c4\<lparr> state := Failed MalformedResponseError \<rparr>)
                  | Inr response \<Rightarrow>
                      Inr ((apply_response_proto c4 response)\<lparr> state := Completed \<rparr>))))"

fun is_unsuccessful :: "call_state \<Rightarrow> bool" where
  "is_unsuccessful (Failed _) = True"
| "is_unsuccessful TimedOut = True"
| "is_unsuccessful _ = False"

section \<open>Concrete clients and environments\<close>

text \<open>
  A client whose transport never answers, one whose transport answers with the image
  bytes it is configured with, and an environment for the causal-LM dendrite whose
  serializer writes the tensor's elements as bytes and whose stub answers at once.
\<close>

definition silent_client :: endpoint_client where
  "silent_client =
     \<lparr> encode_request = (\<lambda>r. Inr (map (\<lambda>n. char_of (int n)) (request_text r))),
       decode_response = (\<lambda>b. Inr \<lparr> response_image = b \<rparr>),
       client_metadata = [],
       transport = (\<lambda>operation wire_request deadline md. NeverResponds) \<rparr>"


definition demo_env :: bittensor_env where
  "demo_env =
     \<lparr> event_loop = Idle,
       version_as_int = 5003000,
       wallet_new = Inr (Wallet 0),
       endpoint_from_tensor = (\<lambda>t. Inr (Endpoint (length (tensor_data t)))),
       receptor_new = (\<lambda>ep w. Inr (Receptor 0)),
       serializer_serialize = (\<lambda>ty t. Inr (map char_of (tensor_data t))),
       serializer_deserialize = (\<lambda>ty b. Inr (Tensor [length b] (map of_char b))),
       receptor_sign = (\<lambda>r. Inr (str_lit ''sig'')),
       stub_ForwardTextLastHiddenState =
         (\<lambda>r request deadline md. Done \<lparr> hidden_states = serialized_text_inputs request \<rparr>) \<rparr>"




definition demo_dendrite :: text_causal_lm_dendrite where
  "demo_dendrite =
     \<lparr> wallet = PyWallet (Wallet 0),
       endpoint = PyEndpoint (Endpoint 0),
       receptor = Receptor 0,
       text_inputs_serializer_type = MSGPACK,
       hidden_states_serializer_type = MSGPACK \<rparr>"

section \<open>Properties\<close>

declare nat_digits.simps [simp del]

subsection \<open>Helper facts\<close>

lemma invoke_keeps_image:
  "\<not> is_apply_response m \<Longrightarrow> image (invoke m c) = image c"
  by (cases m)
     (simp_all add: get_callable_def get_request_proto_def get_inputs_shape_def
        get_outputs_shape_def)

lemma invoke_all_keeps_image:
  "\<forall>m \<in> set ms. \<not> is_apply_response m \<Longrightarrow> image (invoke_all ms c) = image c"
  by (induction ms arbitrary: c) (simp_all add: invoke_keeps_image)

lemma invoke_all_append:
  "invoke_all (xs @ ys) c = invoke_all ys (invoke_all xs c)"
  by (induction xs arbitrary: c) simp_all

lemma apply_spec_total:
  "\<exists>c'. dendrite_apply_spec client d c = Inr c'"
  by (simp add: dendrite_apply_spec_def get_request_proto_def get_callable_def Let_def
      split: sum.split transport_outcome.split)

lemma apply_spec_terminal:
  "dendrite_apply_spec client d c = Inr c' \<Longrightarrow>
     is_unsuccessful (state c') \<or> state c' = Completed"
  by (auto simp add: dendrite_apply_spec_def get_request_proto_def get_callable_def Let_def
      apply_response_proto_def
      split: sum.splits transport_outcome.splits)

lemma apply_spec_unsuccessful_image:
  "dendrite_apply_spec client d c = Inr c' \<Longrightarrow> is_unsuccessful (state c')
     \<Longrightarrow> image c' = image c"
  by (auto simp add: dendrite_apply_spec_def get_request_proto_def get_callable_def Let_def
      apply_response_proto_def
      split: sum.splits transport_outcome.splits)

lemma apply_spec_completed:
  "dendrite_apply_spec client d c = Inr c' \<Longrightarrow> state c' = Completed
     \<Longrightarrow> \<exists>w r. decode_response client w = Inr r
           \<and> c' = (apply_response_proto c r)\<lparr> state := Completed \<rparr>"
  by (auto simp add: dendrite_apply_spec_def get_request_proto_def get_callable_def Let_def
      apply_response_proto_def
      split: sum.splits transport_outcome.splits)

lemma async_forward_after_invocation:
  "forward_invocation env self x t = Inr i \<Longrightarrow>
     TextCausalLMDendrite_async_forward env self x t =
       (case wait_for (stub_ForwardTextLastHiddenState env (receptor self)
                         (inv_request i) (inv_timeout i) (inv_metadata i)) t of
          Inl e \<Rightarrow> Inl e
        | Inr grpc_response \<Rightarrow>
            serializer_deserialize env (hidden_states_serializer_type self)
              (hidden_states grpc_response))"
  by (simp add: TextCausalLMDendrite_async_forward_def await_def)

subsection \<open>Blocking and non-blocking entry points\<close>




subsection \<open>The output payload\<close>

text \<open>
  C2. The output payload \<open>image\<close> of a text-to-image descriptor is empty after
  construction and stays at its value under every sequence of descriptor operations that
  does not contain \<open>apply_response_proto\<close>; a sequence that contains it once leaves the
  image of that response. Driven through the call lifecycle, the descriptor always
  reaches a terminal state; in the failed and timed-out states the payload is the one
  before the call (empty for a fresh descriptor), and in the completed state the
  descriptor is the original with \<open>apply_response_proto\<close> applied once, to the decoded
  response.
\<close>

theorem image_unset_until_apply_response:
  "image (TextToImageForwardCall d tx t) = []
   \<and> ((\<forall>m \<in> set ms. \<not> is_apply_response m) \<longrightarrow> image (invoke_all ms c) = image c)
   \<and> ((\<forall>m \<in> set ms. \<not> is_apply_response m) \<and> (\<forall>m \<in> set ms'. \<not> is_apply_response m) \<longrightarrow>
        image (invoke_all (ms @ Call_apply_response_proto r # ms') c) = response_image r)
   \<and> (\<exists>c'. dendrite_apply_spec client d c = Inr c'
          \<and> (is_unsuccessful (state c') \<or> state c' = Completed)
          \<and> (is_unsuccessful (state c') \<longrightarrow> image c' = image c)
          \<and> (state c' = Completed \<longrightarrow>
                (\<exists>w r'. decode_response client w = Inr r'
                   \<and> c' = (apply_response_proto c r')\<lparr> state := Completed \<rparr>)))
   \<and> (dendrite_apply_spec client d (TextToImageForwardCall d tx t) = Inr cfin
        \<and> is_unsuccessful (state cfin) \<longrightarrow> image cfin = [])"
proof (intro conjI)
  show "image (TextToImageForwardCall d tx t) = []"
    by (simp add: TextToImageForwardCall_def)
  show "(\<forall>m \<in> set ms. \<not> is_apply_response m) \<longrightarrow> image (invoke_all ms c) = image c"
    by (simp add: invoke_all_keeps_image)
  show "(\<forall>m \<in> set ms. \<not> is_apply_response m) \<and> (\<forall>m \<in> set ms'. \<not> is_apply_response m) \<longrightarrow>
        image (invoke_all (ms @ Call_apply_response_proto r # ms') c) = response_image r"
    by (simp add: invoke_all_append invoke_all_keeps_image apply_response_proto_def)
  show "\<exists>c'. dendrite_apply_spec client d c = Inr c'
          \<and> (is_unsuccessful (state c') \<or> state c' = Completed)
          \<and> (is_unsuccessful (state c') \<longrightarrow> image c' = image c)
          \<and> (state c' = Completed \<longrightarrow>
                (\<exists>w r'. decode_response client w = Inr r'
                   \<and> c' = (apply_response_proto c r')\<lparr> state := Completed \<rparr>))"
  proof -
    obtain c' where run: "dendrite_apply_spec client d c = Inr c'"
      using apply_spec_total by blast
    from run have "is_unsuccessful (state c') \<or> state c' = Completed"
      by (rule apply_spec_terminal)
    moreover from run have "is_unsuccessful (state c') \<longrightarrow> image c' = image c"
      by (simp add: apply_spec_unsuccessful_image)
    moreover from run have "state c' = Completed \<longrightarrow>
        (\<exists>w r'. decode_response client w = Inr r'
           \<and> c' = (apply_response_proto c r')\<lparr> state := Completed \<rparr>)"
      by (simp add: apply_spec_completed)
    ultimately show ?thesis using run by blast
  qed
  show "dendrite_apply_spec client d (TextToImageForwardCall d tx t) = Inr cfin
        \<and> is_unsuccessful (state cfin) \<longrightarrow> image cfin = []"
  proof
    assume a: "dendrite_apply_spec client d (TextToImageForwardCall d tx t) = Inr cfin
        \<and> is_unsuccessful (state cfin)"
    then have "image cfin = image (TextToImageForwardCall d tx t)"
      using apply_spec_unsuccessful_image by blast
    then show "image cfin = []"
      by (simp add: TextToImageForwardCall_def)
  qed
qed

theorem image_unset_until_apply_response_witness:
  "image (invoke_all [Call_get_request_proto, Call_get_outputs_shape, Call_get_callable]
            (TextToImageForwardCall \<lparr>channel = 0, loop = Idle\<rparr> (str_lit ''a cat'') 12)) = []
   \<and> image (invoke_all [Call_get_inputs_shape,
                        Call_apply_response_proto \<lparr>response_image = ''png''\<rparr>,
                        Call_get_outputs_shape]
              (TextToImageForwardCall \<lparr>channel = 0, loop = Idle\<rparr> (str_lit ''a cat'') 12)) = ''png''
   \<and> (\<exists>c. dendrite_apply_spec silent_client \<lparr>channel = 0, loop = Idle\<rparr>
              (TextToImageForwardCall \<lparr>channel = 0, loop = Idle\<rparr> (str_lit ''a cat'') 12) = Inr c
          \<and> state c = TimedOut \<and> image c = [])"
proof -
  let ?d = "\<lparr>channel = 0, loop = Idle\<rparr>"
  let ?c = "TextToImageForwardCall ?d (str_lit ''a cat'') 12"
  let ?ct = "?c\<lparr> state := TimedOut \<rparr>"
  have run: "dendrite_apply_spec silent_client ?d ?c = Inr ?ct"
    by (simp add: dendrite_apply_spec_def silent_client_def get_request_proto_def
        get_callable_def TextToImageForwardCall_def)
  have bad: "is_unsuccessful (state ?ct)" by simp
  note th = image_unset_until_apply_response
    [where d = "?d" and tx = "str_lit ''a cat''" and t = "12"
       and ms = "[Call_get_request_proto, Call_get_outputs_shape, Call_get_callable]"
       and c = "?c" and client = "silent_client" and cfin = "?ct"]
  from th have "image (invoke_all [Call_get_request_proto, Call_get_outputs_shape, Call_get_callable] ?c)
      = image ?c" by simp
  moreover from th have "image ?c = []" by blast
  moreover from image_unset_until_apply_response
    [where ms = "[Call_get_inputs_shape]" and ms' = "[Call_get_outputs_shape]"
       and r = "\<lparr>response_image = ''png''\<rparr>" and c = "?c"]
  have "image (invoke_all ([Call_get_inputs_shape] @
        Call_apply_response_proto \<lparr>response_image = ''png''\<rparr> # [Call_get_outputs_shape]) ?c) = ''png''"
    by simp
  moreover from th run bad have "image ?ct = []" by blast
  ultimately show ?thesis using run by simp
qed

subsection \<open>Responses that cannot be decoded\<close>




subsection \<open>Errors and the payload-only call shape\<close>




subsection \<open>Input shape\<close>

text \<open>
  C7. A text-to-image forward call can be constructed from every text, the empty string
  included; \<open>get_inputs_shape\<close> then returns the one-dimensional size holding the length
  of the text (0 for the empty string), and does not change the descriptor.
\<close>

theorem get_inputs_shape_length:
  "get_inputs_shape (TextToImageForwardCall d tx t) =
     ([length tx], TextToImageForwardCall d tx t)
   \<and> fst (get_inputs_shape (TextToImageForwardCall d [] t)) = [0]
   \<and> text_field (TextToImageForwardCall d tx t) = tx"
  by (simp add: get_inputs_shape_def TextToImageForwardCall_def)

subsection \<open>Call metadata\<close>

text \<open>
  C8. Whenever the causal-LM call reaches the stub, the metadata of the invocation is the
  list of exactly three pairs, in this order: \<open>rpc-auth-header\<close> with the tag
  \<open>Bittensor\<close>, \<open>bittensor-signature\<close> with the string returned by the receptor's
  \<open>sign\<close>, and \<open>bittensor-version\<close> with the decimal rendering of the version
  integer; and the stub is invoked with that invocation.
\<close>

theorem forward_invocation_metadata:
  "forward_invocation env self x t = Inr i \<Longrightarrow>
     (\<exists>signature. receptor_sign env (receptor self) = Inr signature
        \<and> inv_metadata i =
            [ (str_lit ''rpc-auth-header'', str_lit ''Bittensor''),
              (str_lit ''bittensor-signature'', signature),
              (str_lit ''bittensor-version'', py_str_of_int (version_as_int env)) ])
     \<and> length (inv_metadata i) = 3
     \<and> TextCausalLMDendrite_async_forward env self x t =
         (case wait_for (stub_ForwardTextLastHiddenState env (receptor self)
                           (inv_request i) t (inv_metadata i)) t of
            Inl e \<Rightarrow> Inl e
          | Inr grpc_response \<Rightarrow>
              serializer_deserialize env (hidden_states_serializer_type self)
                (hidden_states grpc_response))"
proof -
  assume a: "forward_invocation env self x t = Inr i"
  then have t: "inv_timeout i = t"
    by (auto simp add: forward_invocation_def Let_def split: sum.splits)
  from a have "\<exists>signature. receptor_sign env (receptor self) = Inr signature
        \<and> inv_metadata i =
            [ (str_lit ''rpc-auth-header'', str_lit ''Bittensor''),
              (str_lit ''bittensor-signature'', signature),
              (str_lit ''bittensor-version'', py_str_of_int (version_as_int env)) ]"
    by (auto simp add: forward_invocation_def Let_def split: sum.splits)
  moreover from this have "length (inv_metadata i) = 3" by auto
  moreover from a t have "TextCausalLMDendrite_async_forward env self x t =
         (case wait_for (stub_ForwardTextLastHiddenState env (receptor self)
                           (inv_request i) t (inv_metadata i)) t of
            Inl e \<Rightarrow> Inl e
          | Inr grpc_response \<Rightarrow>
              serializer_deserialize env (hidden_states_serializer_type self)
                (hidden_states grpc_response))"
    by (simp add: async_forward_after_invocation)
  ultimately show ?thesis by blast
qed

theorem forward_invocation_metadata_witness:
  "inv_metadata
     \<lparr> inv_request = \<lparr> serialized_text_inputs = [CHR 0x01, CHR 0x02, CHR 0x03, CHR 0x04],
                       request_text_inputs_serializer_type = MSGPACK,
                       request_hidden_states_serializer_type = MSGPACK \<rparr>,
       inv_timeout = 12,
       inv_metadata = [ (str_lit ''rpc-auth-header'', str_lit ''Bittensor''),
                        (str_lit ''bittensor-signature'', str_lit ''sig''),
                        (str_lit ''bittensor-version'', str_lit ''5003000'') ] \<rparr>
     = [ (str_lit ''rpc-auth-header'', str_lit ''Bittensor''),
         (str_lit ''bittensor-signature'', str_lit ''sig''),
         (str_lit ''bittensor-version'', py_str_of_int (version_as_int demo_env)) ]
   \<and> forward_invocation demo_env demo_dendrite (Tensor [1, 4] [1, 2, 3, 4]) 12
     = Inr \<lparr> inv_request = \<lparr> serialized_text_inputs = [CHR 0x01, CHR 0x02, CHR 0x03, CHR 0x04],
                       request_text_inputs_serializer_type = MSGPACK,
                       request_hidden_states_serializer_type = MSGPACK \<rparr>,
       inv_timeout = 12,
       inv_metadata = [ (str_lit ''rpc-auth-header'', str_lit ''Bittensor''),
                        (str_lit ''bittensor-signature'', str_lit ''sig''),
                        (str_lit ''bittensor-version'', str_lit ''5003000'') ] \<rparr>"
proof -
  let ?i = "\<lparr> inv_request = \<lparr> serialized_text_inputs = [CHR 0x01, CHR 0x02, CHR 0x03, CHR 0x04],
                       request_text_inputs_serializer_type = MSGPACK,
                       request_hidden_states_serializer_type = MSGPACK \<rparr>,
       inv_timeout = 12,
       inv_metadata = [ (str_lit ''rpc-auth-header'', str_lit ''Bittensor''),
                        (str_lit ''bittensor-signature'', str_lit ''sig''),
                        (str_lit ''bittensor-version'', str_lit ''5003000'') ] \<rparr>"
  have a: "forward_invocation demo_env demo_dendrite (Tensor [1, 4] [1, 2, 3, 4]) 12 = Inr ?i"
    by (simp add: forward_invocation_def demo_env_def demo_dendrite_def
        py_str_of_int_def str_lit_def nat_digits.simps char_of_def)
  have s: "receptor_sign demo_env (receptor demo_dendrite) = Inr (str_lit ''sig'')"
    by (simp add: demo_env_def)
  from forward_invocation_metadata [OF a] s a show ?thesis
    by auto
qed

subsection \<open>Building the request\<close>

text \<open>
  C9. \<open>get_request_proto\<close> returns the descriptor exactly as it received it, and the
  request it returns is determined by the input field \<open>text\<close> alone: descriptors with
  equal text give equal requests. The request of the causal-LM call is determined by the
  text inputs and the two serializer types of the dendrite: it is the same for two
  dendrites that agree on these, whatever their other fields and the timeout.
\<close>

theorem get_request_proto_pure:
  "snd (get_request_proto c) = c
   \<and> (text_field c1 = text_field c2 \<longrightarrow>
        fst (get_request_proto c1) = fst (get_request_proto c2))
   \<and> (forward_invocation env s1 x t1 = Inr i1 \<and> forward_invocation env s2 x t2 = Inr i2
        \<and> text_inputs_serializer_type s1 = text_inputs_serializer_type s2
        \<and> hidden_states_serializer_type s1 = hidden_states_serializer_type s2 \<longrightarrow>
        inv_request i1 = inv_request i2)"
  by (auto simp add: get_request_proto_def forward_invocation_def Let_def split: sum.splits)

theorem get_request_proto_pure_witness:
  "fst (get_request_proto
          ((TextToImageForwardCall \<lparr>channel = 0, loop = Idle\<rparr> (str_lit ''a cat'') 12)\<lparr> image := ''png'' \<rparr>))
     = fst (get_request_proto (TextToImageForwardCall \<lparr>channel = 7, loop = Running\<rparr> (str_lit ''a cat'') 3))
   \<and> inv_request
       \<lparr> inv_request = \<lparr> serialized_text_inputs = [CHR 0x01, CHR 0x02, CHR 0x03, CHR 0x04],
                         request_text_inputs_serializer_type = MSGPACK,
                         request_hidden_states_serializer_type = MSGPACK \<rparr>,
         inv_timeout = 12,
         inv_metadata = [ (str_lit ''rpc-auth-header'', str_lit ''Bittensor''),
                          (str_lit ''bittensor-signature'', str_lit ''sig''),
                          (str_lit ''bittensor-version'', str_lit ''5003000'') ] \<rparr>
     = inv_request
       \<lparr> inv_request = \<lparr> serialized_text_inputs = [CHR 0x01, CHR 0x02, CHR 0x03, CHR 0x04],
                         request_text_inputs_serializer_type = MSGPACK,
                         request_hidden_states_serializer_type = MSGPACK \<rparr>,
         inv_timeout = 3,
         inv_metadata = [ (str_lit ''rpc-auth-header'', str_lit ''Bittensor''),
                          (str_lit ''bittensor-signature'', str_lit ''sig''),
                          (str_lit ''bittensor-version'', str_lit ''5003000'') ] \<rparr>"
proof -
  let ?c1 = "(TextToImageForwardCall \<lparr>channel = 0, loop = Idle\<rparr> (str_lit ''a cat'') 12)\<lparr> image := ''png'' \<rparr>"
  let ?c2 = "TextToImageForwardCall \<lparr>channel = 7, loop = Running\<rparr> (str_lit ''a cat'') 3"
  let ?req = "\<lparr> serialized_text_inputs = [CHR 0x01, CHR 0x02, CHR 0x03, CHR 0x04],
                 request_text_inputs_serializer_type = MSGPACK,
                 request_hidden_states_serializer_type = MSGPACK \<rparr>"
  let ?md = "[ (str_lit ''rpc-auth-header'', str_lit ''Bittensor''),
               (str_lit ''bittensor-signature'', str_lit ''sig''),
               (str_lit ''bittensor-version'', str_lit ''5003000'') ]"
  let ?i1 = "\<lparr> inv_request = ?req, inv_timeout = 12, inv_metadata = ?md \<rparr>"
  let ?i2 = "\<lparr> inv_request = ?req, inv_timeout = 3, inv_metadata = ?md \<rparr>"
  let ?s2 = "demo_dendrite\<lparr> wallet := PyWallet (Wallet 5), receptor := Receptor 0 \<rparr>"
  have a: "text_field ?c1 = text_field ?c2"
    by (simp add: TextToImageForwardCall_def)
  have b: "forward_invocation demo_env demo_dendrite (Tensor [1, 4] [1, 2, 3, 4]) 12 = Inr ?i1"
    by (simp add: forward_invocation_def demo_env_def demo_dendrite_def
        py_str_of_int_def str_lit_def nat_digits.simps char_of_def)
  have c: "forward_invocation demo_env ?s2 (Tensor [1, 4] [1, 2, 3, 4]) 3 = Inr ?i2"
    by (simp add: forward_invocation_def demo_env_def demo_dendrite_def
        py_str_of_int_def str_lit_def nat_digits.simps char_of_def)
  have d: "text_inputs_serializer_type demo_dendrite = text_inputs_serializer_type ?s2
         \<and> hidden_states_serializer_type demo_dendrite = hidden_states_serializer_type ?s2"
    by simp
  from get_request_proto_pure [where ?c1.0 = "?c1" and ?c2.0 = "?c2"] a
  have "fst (get_request_proto ?c1) = fst (get_request_proto ?c2)"
    by blast
  moreover from get_request_proto_pure
    [where env = demo_env and ?s1.0 = demo_dendrite and ?s2.0 = "?s2"
       and x = "Tensor [1, 4] [1, 2, 3, 4]" and ?t1.0 = "12" and ?t2.0 = "3"
       and ?i1.0 = "?i1" and ?i2.0 = "?i2"] b c d
  have "inv_request ?i1 = inv_request ?i2"
    by blast
  ultimately show ?thesis by blast
qed

subsection \<open>Construction of the causal-LM dendrite\<close>

text \<open>
  C10. For a wallet argument that is \<open>None\<close> or a wallet and an endpoint argument that
  is an endpoint or a tensor, whenever \<open>__init__\<close> returns, \<open>self.wallet\<close> is a wallet
  object and \<open>self.endpoint\<close> is an endpoint object: a \<open>None\<close> wallet has been
  replaced by the newly constructed default wallet and a given wallet is kept; a tensor
  endpoint has been converted with \<open>from_tensor\<close> and a given endpoint is kept; the
  receptor has been built from these two stored values. \<open>__init__\<close> returns whenever the
  constructors it calls do.
\<close>

theorem init_normalizes_wallet_and_endpoint:
  assumes "wallet_arg = PyNone \<or> isinstance_wallet wallet_arg"
    and "isinstance_Endpoint endpoint_arg \<or> isinstance_Tensor endpoint_arg"
  shows "(TextCausalLMDendrite_init env endpoint_arg wallet_arg ser1 ser2 = Inr self \<longrightarrow>
           isinstance_wallet (wallet self) \<and> isinstance_Endpoint (endpoint self)
           \<and> (wallet_arg = PyNone \<longrightarrow>
                 (\<exists>w. wallet_new env = Inr w \<and> wallet self = PyWallet w))
           \<and> (wallet_arg \<noteq> PyNone \<longrightarrow> wallet self = wallet_arg)
           \<and> (\<forall>tensor. endpoint_arg = PyTensor tensor \<longrightarrow>
                 (\<exists>ep. endpoint_from_tensor env tensor = Inr ep \<and> endpoint self = PyEndpoint ep))
           \<and> (isinstance_Endpoint endpoint_arg \<longrightarrow> endpoint self = endpoint_arg)
           \<and> receptor_new env (endpoint self) (wallet self) = Inr (receptor self)
           \<and> text_inputs_serializer_type self = ser1
           \<and> hidden_states_serializer_type self = ser2)
       \<and> ((\<exists>w. wallet_new env = Inr w) \<and> (\<forall>tensor. \<exists>ep. endpoint_from_tensor env tensor = Inr ep)
            \<and> (\<forall>ep w. \<exists>r. receptor_new env ep w = Inr r) \<longrightarrow>
           (\<exists>self'. TextCausalLMDendrite_init env endpoint_arg wallet_arg ser1 ser2 = Inr self'))"
proof (intro conjI impI)
  assume "TextCausalLMDendrite_init env endpoint_arg wallet_arg ser1 ser2 = Inr self"
  with assms show "isinstance_wallet (wallet self)"
    by (cases wallet_arg; cases endpoint_arg)
       (auto simp add: TextCausalLMDendrite_init_def split: sum.splits if_splits)
next
  assume "TextCausalLMDendrite_init env endpoint_arg wallet_arg ser1 ser2 = Inr self"
  with assms show "isinstance_Endpoint (endpoint self)"
    by (cases wallet_arg; cases endpoint_arg)
       (auto simp add: TextCausalLMDendrite_init_def split: sum.splits if_splits)
next
  assume "TextCausalLMDendrite_init env endpoint_arg wallet_arg ser1 ser2 = Inr self"
    and "wallet_arg = PyNone"
  with assms show "\<exists>w. wallet_new env = Inr w \<and> wallet self = PyWallet w"
    by (cases endpoint_arg)
       (auto simp add: TextCausalLMDendrite_init_def split: sum.splits if_splits)
next
  assume "TextCausalLMDendrite_init env endpoint_arg wallet_arg ser1 ser2 = Inr self"
    and "wallet_arg \<noteq> PyNone"
  with assms show "wallet self = wallet_arg"
    by (cases endpoint_arg)
       (auto simp add: TextCausalLMDendrite_init_def split: sum.splits if_splits)
next
  assume a: "TextCausalLMDendrite_init env endpoint_arg wallet_arg ser1 ser2 = Inr self"
  show "\<forall>tensor. endpoint_arg = PyTensor tensor \<longrightarrow>
          (\<exists>ep. endpoint_from_tensor env tensor = Inr ep \<and> endpoint self = PyEndpoint ep)"
  proof (intro allI impI)
    fix tensor assume "endpoint_arg = PyTensor tensor"
    with a show "\<exists>ep. endpoint_from_tensor env tensor = Inr ep \<and> endpoint self = PyEndpoint ep"
      by (auto simp add: TextCausalLMDendrite_init_def split: sum.splits if_splits)
  qed
next
  assume "TextCausalLMDendrite_init env endpoint_arg wallet_arg ser1 ser2 = Inr self"
    and "isinstance_Endpoint endpoint_arg"
  then show "endpoint self = endpoint_arg"
    by (cases endpoint_arg)
       (auto simp add: TextCausalLMDendrite_init_def split: sum.splits if_splits)
next
  assume "TextCausalLMDendrite_init env endpoint_arg wallet_arg ser1 ser2 = Inr self"
  then show "receptor_new env (endpoint self) (wallet self) = Inr (receptor self)"
    and "text_inputs_serializer_type self = ser1"
    and "hidden_states_serializer_type self = ser2"
    by (auto simp add: TextCausalLMDendrite_init_def split: sum.splits if_splits)
next
  assume b: "(\<exists>w. wallet_new env = Inr w) \<and> (\<forall>tensor. \<exists>ep. endpoint_from_tensor env tensor = Inr ep)
            \<and> (\<forall>ep w. \<exists>r. receptor_new env ep w = Inr r)"
  then obtain w where w: "wallet_new env = Inr w" by blast
  define wallet' where "wallet' = (if wallet_arg = PyNone then PyWallet w else wallet_arg)"
  show "\<exists>self'. TextCausalLMDendrite_init env endpoint_arg wallet_arg ser1 ser2 = Inr self'"
  proof (cases endpoint_arg)
    case (PyTensor tensor)
    from b obtain ep where ep: "endpoint_from_tensor env tensor = Inr ep" by blast
    from b obtain r where "receptor_new env (PyEndpoint ep) wallet' = Inr r" by blast
    with w ep PyTensor show ?thesis
      by (auto simp add: TextCausalLMDendrite_init_def wallet'_def split: if_splits)
  next
    case PyNone
    from b obtain r where "receptor_new env endpoint_arg wallet' = Inr r" by blast
    with w PyNone show ?thesis
      by (auto simp add: TextCausalLMDendrite_init_def wallet'_def split: if_splits)
  next
    case (PyWallet x)
    from b obtain r where "receptor_new env endpoint_arg wallet' = Inr r" by blast
    with w PyWallet show ?thesis
      by (auto simp add: TextCausalLMDendrite_init_def wallet'_def split: if_splits)
  next
    case (PyEndpoint x)
    from b obtain r where "receptor_new env endpoint_arg wallet' = Inr r" by blast
    with w PyEndpoint show ?thesis
      by (auto simp add: TextCausalLMDendrite_init_def wallet'_def split: if_splits)
  qed
qed

theorem init_normalizes_wallet_and_endpoint_witness:
  "TextCausalLMDendrite_init demo_env (PyTensor (Tensor [3] [1, 2, 3])) PyNone MSGPACK MSGPACK
     = Inr \<lparr> wallet = PyWallet (Wallet 0), endpoint = PyEndpoint (Endpoint 3),
             receptor = Receptor 0, text_inputs_serializer_type = MSGPACK,
             hidden_states_serializer_type = MSGPACK \<rparr>
   \<and> isinstance_wallet (wallet \<lparr> wallet = PyWallet (Wallet 0), endpoint = PyEndpoint (Endpoint 3),
             receptor = Receptor 0, text_inputs_serializer_type = MSGPACK,
             hidden_states_serializer_type = MSGPACK \<rparr>)
   \<and> isinstance_Endpoint (endpoint \<lparr> wallet = PyWallet (Wallet 0), endpoint = PyEndpoint (Endpoint 3),
             receptor = Receptor 0, text_inputs_serializer_type = MSGPACK,
             hidden_states_serializer_type = MSGPACK \<rparr>)
   \<and> (\<exists>self'. TextCausalLMDendrite_init demo_env (PyEndpoint (Endpoint 1)) (PyWallet (Wallet 2))
                 MSGPACK (OtherSerializer 1) = Inr self')"
proof -
  let ?self = "\<lparr> wallet = PyWallet (Wallet 0), endpoint = PyEndpoint (Endpoint 3),
             receptor = Receptor 0, text_inputs_serializer_type = MSGPACK,
             hidden_states_serializer_type = MSGPACK \<rparr>"
  have a: "PyNone = PyNone \<or> isinstance_wallet PyNone" by simp
  have b: "isinstance_Endpoint (PyTensor (Tensor [3] [1, 2, 3]))
         \<or> isinstance_Tensor (PyTensor (Tensor [3] [1, 2, 3]))" by simp
  have c: "TextCausalLMDendrite_init demo_env (PyTensor (Tensor [3] [1, 2, 3])) PyNone
             MSGPACK MSGPACK = Inr ?self"
    by (simp add: TextCausalLMDendrite_init_def demo_env_def)
  from init_normalizes_wallet_and_endpoint
    [OF a b, where env = demo_env and ?ser1.0 = MSGPACK and ?ser2.0 = MSGPACK and self = "?self"] c
  have d: "isinstance_wallet (wallet ?self) \<and> isinstance_Endpoint (endpoint ?self)"
    by blast
  have a': "PyWallet (Wallet 2) = PyNone \<or> isinstance_wallet (PyWallet (Wallet 2))" by simp
  have b': "isinstance_Endpoint (PyEndpoint (Endpoint 1))
          \<or> isinstance_Tensor (PyEndpoint (Endpoint 1))" by simp
  have e: "(\<exists>w. wallet_new demo_env = Inr w)
         \<and> (\<forall>tensor. \<exists>ep. endpoint_from_tensor demo_env tensor = Inr ep)
         \<and> (\<forall>ep w. \<exists>r. receptor_new demo_env ep w = Inr r)"
    by (simp add: demo_env_def)
  from init_normalizes_wallet_and_endpoint
    [OF a' b', where env = demo_env and ?ser1.0 = MSGPACK and ?ser2.0 = "OtherSerializer 1"] e
  have "\<exists>self'. TextCausalLMDendrite_init demo_env (PyEndpoint (Endpoint 1)) (PyWallet (Wallet 2))
                 MSGPACK (OtherSerializer 1) = Inr self'"
    by blast
  with c d show ?thesis by blast
qed

end
